theory Spec2Isabelle
  imports Complex_Main
begin

section \<open>Icon scripts of flutter_furl: drawing calls and pixels\<close>

text \<open>
  The repository is a family of Python scripts that draw application icons with Pillow:
  each script creates an RGBA image, issues a fixed sequence of \<open>draw.ellipse\<close>,
  \<open>draw.rectangle\<close>, \<open>draw.arc\<close> and \<open>draw.text\<close> calls, and saves the result.
  A script is modelled by the list of drawing calls it issues, in the order it issues
  them; the loops that produce gradients, strokes and outlines become maps over
  \<open>range\<close>. Coordinates and sizes that a script fixes as constants derived from
  \<open>size = 1024\<close> are parameters of the model, so that the loops can be stated for any
  radius; the scripts' own values are instances.

  Python's \<open>/\<close> on integers is float division. It is modelled by exact division of
  reals, and \<open>int()\<close> by truncation toward zero. A binary64 result differs from the exact
  one by a few units in the last place, which changes \<open>int()\<close> only where the exact value
  is an integer and the float falls just below it: in the ring loop of radius 480 this
  happens once (green channel, \<open>i = 40\<close>: exact 69, float 68.99...). Concrete colours
  quoted below are at inputs where the two agree.
\<close>

subsection \<open>Python arithmetic\<close>

definition py_int :: "real \<Rightarrow> int" where
  \<comment> \<open>\<open>int(x)\<close> on a float: truncation toward zero.\<close>
  "py_int x = (if 0 \<le> x then \<lfloor>x\<rfloor> else \<lceil>x\<rceil>)"

definition py_range :: "int \<Rightarrow> int list" where
  \<comment> \<open>\<open>range(n)\<close>: \<open>0, 1, ..., n - 1\<close>, empty when \<open>n \<le> 0\<close>.\<close>
  "py_range n = map int [0..<nat n]"

definition py_range2 :: "int \<Rightarrow> int \<Rightarrow> int list" where
  \<comment> \<open>\<open>range(a, b)\<close>: \<open>a, a + 1, ..., b - 1\<close>.\<close>
  "py_range2 a b = map (\<lambda>k. a + int k) [0..<nat (b - a)]"

subsection \<open>Colours, shapes and drawing calls\<close>

type_synonym color = "int \<times> int \<times> int \<times> int"
type_synonym bbox = "int \<times> int \<times> int \<times> int"

datatype shape =
    Ellipse bbox
  | EllipseOutline bbox int
  | Rectangle bbox
  | RoundedRectangle bbox int
  | Arc bbox int int int
  | TextAt "int \<times> int" string

type_synonym draw_call = "shape \<times> color"

fun alpha :: "color \<Rightarrow> int" where
  "alpha (r, g, b, a) = a"

subsection \<open>Channel interpolation as the scripts write it\<close>


definition lerp_weighted :: "int \<Rightarrow> int \<Rightarrow> real \<Rightarrow> int" where
  \<comment> \<open>\<open>int(a * (1 - factor) + b * factor)\<close>: convert_svg_icon.py, create_emoji_icon.py, create_gold_icon.py.\<close>
  "lerp_weighted a b factor = py_int (of_int a * (1 - factor) + of_int b * factor)"




text \<open>create_emoji_icon.py, lines 49-56: the gold gradient of the padlock body.\<close>

definition gold_body :: "int \<times> int \<times> int" where "gold_body = (255, 215, 0)"
definition gold_dark :: "int \<times> int \<times> int" where "gold_dark = (218, 165, 32)"

definition emoji_body_color :: "int \<Rightarrow> int \<Rightarrow> color" where
  "emoji_body_color body_height y =
     (let blend_f = of_int y / of_int body_height
      in (lerp_weighted (fst gold_body) (fst gold_dark) blend_f,
          lerp_weighted (fst (snd gold_body)) (fst (snd gold_dark)) blend_f,
          lerp_weighted (snd (snd gold_body)) (snd (snd gold_dark)) blend_f, 255))"

definition emoji_body_gradient :: "int \<Rightarrow> int \<Rightarrow> int \<Rightarrow> int \<Rightarrow> draw_call list" where
  "emoji_body_gradient body_x body_y body_width body_height =
     map (\<lambda>y. (Rectangle (body_x, body_y + y, body_x + body_width, body_y + y + 1),
                emoji_body_color body_height y)) (py_range body_height)"


subsection \<open>Radial ring gradients\<close>

definition disc :: "int \<Rightarrow> int \<Rightarrow> shape" where
  \<comment> \<open>\<open>[center-i, center-i, center+i, center+i]\<close>: the bounding box of the circle of radius \<open>i\<close>.\<close>
  "disc center i = Ellipse (center - i, center - i, center + i, center + i)"



text \<open>create_icon.py, lines 17-25: here the product \<open>(116 - 79) * i\<close> is an integer and only
  the division by \<open>center\<close> is a float operation.\<close>

definition icon_ring_color :: "int \<Rightarrow> int \<Rightarrow> color" where
  "icon_ring_color center i =
     (py_int (79 + of_int ((116 - 79) * i) / of_int center),
      py_int (70 + of_int ((58 - 70) * i) / of_int center),
      py_int (229 + of_int ((237 - 229) * i) / of_int center), 255)"

definition icon_gradient :: "int \<Rightarrow> draw_call list" where
  "icon_gradient center = map (\<lambda>i. (disc center i, icon_ring_color center i)) (py_range center)"






subsection \<open>Images, coverage and compositing\<close>

record 'a image =
  cv_width :: int
  cv_height :: int
  cv_pixels :: "int \<times> int \<Rightarrow> 'a"

definition new_image :: "int \<Rightarrow> int \<Rightarrow> 'a \<Rightarrow> 'a image" where
  \<comment> \<open>\<open>Image.new(mode, (w, h), colour)\<close>.\<close>
  "new_image w h c = \<lparr>cv_width = w, cv_height = h, cv_pixels = (\<lambda>p. c)\<rparr>"

definition inside :: "'a image \<Rightarrow> int \<times> int \<Rightarrow> bool" where
  "inside img p = (0 \<le> fst p \<and> fst p < cv_width img \<and> 0 \<le> snd p \<and> snd p < cv_height img)"

definition getpixel :: "'a image \<Rightarrow> int \<times> int \<Rightarrow> 'a option" where
  "getpixel img p = (if inside img p then Some (cv_pixels img p) else None)"

text \<open>
  Modelled from the spec: the rasteriser and the compositor are Pillow's and are not part
  of the repository. Coverage of the filled shapes follows section 4.3: a pixel of the
  bounding box (both ends included, as Pillow's boxes are) belongs to the ellipse when
  \<open>((x-cx)/rx)\<^sup>2 + ((y-cy)/ry)\<^sup>2 \<le> 1\<close>, written here with the denominators cleared
  (\<open>cx = (x0+x1)/2\<close>, \<open>rx = (x1-x0)/2\<close>), so that a box of zero width or height covers
  its own pixels; a rounded rectangle is its box without the part of each corner square
  that lies outside the corner circle. Arcs, ring outlines and text depend on stroke
  sampling and on glyphs of the font, which the specification leaves to the external
  collaborators: their coverage is the parameter \<open>ext\<close>. The pixel results proved below
  are about calls with an opaque fill, for which compositing returns the fill colour itself.
\<close>

fun covers :: "(shape \<Rightarrow> int \<times> int \<Rightarrow> bool) \<Rightarrow> shape \<Rightarrow> int \<times> int \<Rightarrow> bool" where
  "covers ext (Ellipse (x0, y0, x1, y1)) (x, y) =
     (x0 \<le> x \<and> x \<le> x1 \<and> y0 \<le> y \<and> y \<le> y1 \<and>
      (2 * x - (x0 + x1))\<^sup>2 * (y1 - y0)\<^sup>2 + (2 * y - (y0 + y1))\<^sup>2 * (x1 - x0)\<^sup>2
        \<le> (x1 - x0)\<^sup>2 * (y1 - y0)\<^sup>2)"
| "covers ext (Rectangle (x0, y0, x1, y1)) (x, y) =
     (x0 \<le> x \<and> x \<le> x1 \<and> y0 \<le> y \<and> y \<le> y1)"
| "covers ext (RoundedRectangle (x0, y0, x1, y1) r) (x, y) =
     (x0 \<le> x \<and> x \<le> x1 \<and> y0 \<le> y \<and> y \<le> y1 \<and>
      (let cx = (if x < x0 + r then x0 + r else if x1 - r < x then x1 - r else x);
           cy = (if y < y0 + r then y0 + r else if y1 - r < y then y1 - r else y)
       in (x - cx)\<^sup>2 + (y - cy)\<^sup>2 \<le> r\<^sup>2))"
| "covers ext s p = ext s p"

definition blend_channel :: "real \<Rightarrow> real \<Rightarrow> real \<Rightarrow> int \<Rightarrow> int \<Rightarrow> int" where
  "blend_channel srcA dstA outA s d =
     round (255 * ((of_int s / 255 * srcA + of_int d / 255 * dstA * (1 - srcA)) / outA))"

definition blend :: "color \<Rightarrow> color \<Rightarrow> color" where
  \<comment> \<open>Modelled from the spec: the compositor is not in the repository. Section 4.1: src-over
     compositing on channels normalised to \<open>[0,1]\<close>, written back rounded to nearest;
     \<open>(0,0,0,0)\<close> when the result alpha is zero.\<close>
  "blend dst src =
     (case dst of (dr, dg, db, da) \<Rightarrow> case src of (sr, sg, sb, sa) \<Rightarrow>
        (let srcA = of_int sa / 255; dstA = of_int da / 255;
             outA = srcA + dstA * (1 - srcA)
         in if outA = 0 then (0, 0, 0, 0)
            else (blend_channel srcA dstA outA sr dr, blend_channel srcA dstA outA sg dg,
                  blend_channel srcA dstA outA sb db, round (255 * outA))))"

definition paint :: "(shape \<Rightarrow> int \<times> int \<Rightarrow> bool) \<Rightarrow> draw_call \<Rightarrow> color image \<Rightarrow> color image" where
  \<comment> \<open>One drawing call: every pixel of the image that the shape covers is composited.\<close>
  "paint cov dc img =
     img\<lparr>cv_pixels := (\<lambda>p. if inside img p \<and> cov (fst dc) p
                             then blend (cv_pixels img p) (snd dc) else cv_pixels img p)\<rparr>"

definition render :: "(shape \<Rightarrow> int \<times> int \<Rightarrow> bool) \<Rightarrow> draw_call list \<Rightarrow> color image \<Rightarrow> color image" where
  \<comment> \<open>The calls of a script, applied in the order the script issues them.\<close>
  "render cov calls img = foldl (\<lambda>im dc. paint cov dc im) img calls"

text \<open>create_icon.py, lines 27-35: the white document rectangle painted after the gradient.\<close>

definition icon_document :: "int \<Rightarrow> draw_call" where
  "icon_document center =
     (let doc_width = 200; doc_height = 260;
          doc_x = center - doc_width div 2; doc_y = center - doc_height div 2
      in (Rectangle (doc_x, doc_y, doc_x + doc_width, doc_y + doc_height), (255, 255, 255, 255)))"

definition no_strokes :: "shape \<Rightarrow> int \<times> int \<Rightarrow> bool" where
  \<comment> \<open>The empty coverage of arcs and text, for evaluating scenes that contain neither.\<close>
  "no_strokes s p = False"

subsection \<open>The circular mask of the feature graphic\<close>

text \<open>
  create_store_assets.py, lines 36-43: a mode L image of the icon's size, zero everywhere,
  gets a filled ellipse of value 255, and \<open>app_icon.putalpha(mask)\<close> installs it as the
  icon's alpha band. \<open>putalpha\<close> is Pillow's method; Pillow documents it as "adds or
  replaces the alpha layer in this image": the band is replaced by the mask, the colour
  bands are untouched, and a mask of another size is rejected with a \<open>ValueError\<close>.
\<close>

datatype error = ValueError

definition fill_mask :: "(shape \<Rightarrow> int \<times> int \<Rightarrow> bool) \<Rightarrow> shape \<Rightarrow> int \<Rightarrow> int image \<Rightarrow> int image" where
  \<comment> \<open>A filled shape drawn on a mode L image: covered pixels take the fill value.\<close>
  "fill_mask cov shp v img =
     img\<lparr>cv_pixels := (\<lambda>p. if inside img p \<and> cov shp p then v else cv_pixels img p)\<rparr>"

definition store_icon_mask :: "(shape \<Rightarrow> int \<times> int \<Rightarrow> bool) \<Rightarrow> int \<Rightarrow> int image" where
  "store_icon_mask cov icon_size =
     fill_mask cov (Ellipse (20, 20, icon_size - 20, icon_size - 20)) 255
       (new_image icon_size icon_size 0)"

definition putalpha :: "color image \<Rightarrow> int image \<Rightarrow> error + color image" where
  "putalpha img mask_img =
     (if cv_width mask_img = cv_width img \<and> cv_height mask_img = cv_height img
      then Inr (img\<lparr>cv_pixels :=
                  (\<lambda>p. case cv_pixels img p of (r, g, b, a) \<Rightarrow> (r, g, b, cv_pixels mask_img p))\<rparr>)
      else Inl ValueError)"

definition applyAlphaMask_spec :: "color image \<Rightarrow> int image \<Rightarrow> color image" where
  \<comment> \<open>The specification's words (section 4.1): each pixel's alpha is multiplied by
     \<open>maskAlpha[i]/255\<close>; the colour channels are never modified.\<close>
  "applyAlphaMask_spec canvas maskAlpha =
     canvas\<lparr>cv_pixels :=
        (\<lambda>p. case cv_pixels canvas p of (r, g, b, a) \<Rightarrow>
               (r, g, b, round (real_of_int a * (real_of_int (cv_pixels maskAlpha p) / 255))))\<rparr>"

subsection \<open>Padlock bodies and their corners\<close>

text \<open>create_gold_icon.py, lines 32-68: the gold gradient rows of the body, then four discs
  in the background colour, centred on the four corner points of the body.\<close>

definition gold_main :: color where "gold_main = (255, 215, 0, 255)"
definition gold_dark_rgba :: color where "gold_dark_rgba = (218, 165, 32, 255)"

definition gold_row_color :: "int \<Rightarrow> int \<Rightarrow> color" where
  "gold_row_color body_height i =
     (case gold_main of (mr, mg, mb, ma) \<Rightarrow> case gold_dark_rgba of (dr, dg, db, da) \<Rightarrow>
        (let blend_factor = of_int i / of_int body_height
         in (lerp_weighted mr dr blend_factor, lerp_weighted mg dg blend_factor,
             lerp_weighted mb db blend_factor, 255)))"

definition gold_body_rows :: "int \<Rightarrow> int \<Rightarrow> int \<Rightarrow> int \<Rightarrow> draw_call list" where
  "gold_body_rows padlock_x body_top body_width body_height =
     map (\<lambda>i. (Rectangle (padlock_x, body_top + i, padlock_x + body_width, body_top + i + 1),
                gold_row_color body_height i)) (py_range body_height)"

definition gold_corners :: "int \<Rightarrow> int \<Rightarrow> int \<Rightarrow> int \<Rightarrow> draw_call list" where
  "gold_corners padlock_x body_top body_width body_height =
     (let corner_size = 25; background = (42, 69, 148, 255)
      in [(Ellipse (padlock_x - corner_size, body_top - corner_size,
                    padlock_x + corner_size, body_top + corner_size), background),
          (Ellipse (padlock_x + body_width - corner_size, body_top - corner_size,
                    padlock_x + body_width + corner_size, body_top + corner_size), background),
          (Ellipse (padlock_x - corner_size, body_top + body_height - corner_size,
                    padlock_x + corner_size, body_top + body_height + corner_size), background),
          (Ellipse (padlock_x + body_width - corner_size, body_top + body_height - corner_size,
                    padlock_x + body_width + corner_size, body_top + body_height + corner_size),
           background)])"

definition gold_padlock_body :: "int \<Rightarrow> draw_call list" where
  "gold_padlock_body sz =
     (let center = sz div 2; padlock_size = 380;
          padlock_x = center - padlock_size div 2;
          padlock_y = center - padlock_size div 2 + 20;
          body_width = padlock_size; body_height = padlock_size - 100;
          body_top = padlock_y + 100
      in gold_body_rows padlock_x body_top body_width body_height
         @ gold_corners padlock_x body_top body_width body_height)"

text \<open>create_emoji_icon.py, lines 42-70: the body rows, then four squares filled with
  \<open>(r, g, b, 255)\<close>, where \<open>r\<close>, \<open>g\<close>, \<open>b\<close> still hold the values of the last row of
  the body loop.\<close>

definition emoji_corners :: "int \<Rightarrow> int \<Rightarrow> int \<Rightarrow> int \<Rightarrow> draw_call list" where
  "emoji_corners body_x body_y body_width body_height =
     (let corner_r = 20;
          corners = [(body_x, body_y),
                     (body_x + body_width - corner_r * 2, body_y),
                     (body_x, body_y + body_height - corner_r * 2),
                     (body_x + body_width - corner_r * 2, body_y + body_height - corner_r * 2)]
      in map (\<lambda>(corner_x, corner_y).
                (Rectangle (corner_x, corner_y, corner_x + corner_r, corner_y + corner_r),
                 emoji_body_color body_height (body_height - 1))) corners)"

definition emoji_padlock_body :: "int \<Rightarrow> draw_call list" where
  "emoji_padlock_body sz =
     (let center = sz div 2; padlock_size = 320;
          padlock_x = center - padlock_size div 2;
          padlock_y = center - padlock_size div 2;
          body_width = py_int (of_int padlock_size * (7 / 10));
          body_height = py_int (of_int padlock_size * (6 / 10));
          body_x = padlock_x + (padlock_size - body_width) div 2;
          body_y = padlock_y + py_int (of_int padlock_size * (3 / 10))
      in emoji_body_gradient body_x body_y body_width body_height
         @ emoji_corners body_x body_y body_width body_height)"

text \<open>create_visible_icon.py, lines 28-39: the body drawn with \<open>draw.rounded_rectangle\<close>.\<close>

definition visible_body :: "int \<Rightarrow> draw_call" where
  "visible_body sz =
     (let center = sz div 2; padlock_size = 300;
          padlock_x = center - padlock_size div 2;
          padlock_y = center - padlock_size div 2 + 30;
          body_width = padlock_size; body_height = padlock_size - 80;
          body_top = padlock_y + 80
      in (RoundedRectangle (padlock_x, body_top, padlock_x + body_width, body_top + body_height) 20,
          (255, 255, 255, 255)))"

subsection \<open>Text with an outline\<close>

text \<open>create_gold_icon.py, lines 132-140 (\<open>outline_size = 4\<close> in the script), and
  create_visible_icon.py, lines 86-90. The text position comes from the font's metrics.\<close>

definition gold_text :: "int \<Rightarrow> int \<Rightarrow> int \<Rightarrow> string \<Rightarrow> draw_call list" where
  "gold_text outline_size text_x text_y text =
     concat (map (\<lambda>adj_x. concat (map (\<lambda>adj_y.
         if adj_x \<noteq> 0 \<or> adj_y \<noteq> 0
         then [(TextAt (text_x + adj_x, text_y + adj_y) text, (0, 0, 0, 255))] else [])
       (py_range2 (- outline_size) (outline_size + 1))))
       (py_range2 (- outline_size) (outline_size + 1)))
     @ [(TextAt (text_x, text_y) text, (255, 255, 255, 255))]"

definition visible_text :: "int \<Rightarrow> int \<Rightarrow> string \<Rightarrow> draw_call list" where
  "visible_text text_x text_y text =
     concat (map (\<lambda>adj. map (\<lambda>adj2.
         (TextAt (text_x + adj, text_y + adj2) text, (255, 255, 255, 255)))
       (py_range2 (- 3) 4)) (py_range2 (- 3) 4))
     @ [(TextAt (text_x, text_y) text, (103, 58, 183, 255))]"

definition outline_offsets_spec :: "int \<Rightarrow> (int \<times> int) set" where
  \<comment> \<open>The specification's words (section 4.4): every integer \<open>(dx, dy)\<close> with
     \<open>max(|dx|,|dy|) \<le> outlineRadius\<close> and \<open>(dx,dy) \<noteq> (0,0)\<close>.\<close>
  "outline_offsets_spec outlineRadius =
     {(dx, dy). max \<bar>dx\<bar> \<bar>dy\<bar> \<le> outlineRadius \<and> (dx, dy) \<noteq> (0, 0)}"

subsection \<open>Shackles as stacked thin arcs\<close>

definition expand :: "bbox \<Rightarrow> int \<Rightarrow> bbox" where
  \<comment> \<open>A bounding box grown outward by \<open>d\<close> on every side.\<close>
  "expand box d = (case box of (x0, y0, x1, y1) \<Rightarrow> (x0 - d, y0 - d, x1 + d, y1 + d))"

text \<open>create_gold_icon.py, lines 76-81 (\<open>shackle_thickness = 35\<close>).\<close>

definition gold_shackle :: "int \<Rightarrow> int \<Rightarrow> int \<Rightarrow> int \<Rightarrow> int \<Rightarrow> draw_call list" where
  "gold_shackle shackle_x shackle_y shackle_width shackle_height shackle_thickness =
     map (\<lambda>thickness.
            (Arc (shackle_x - thickness div 2, shackle_y - thickness div 2,
                  shackle_x + shackle_width + thickness div 2,
                  shackle_y + shackle_height + thickness div 2) 180 360 4, gold_main))
         (py_range shackle_thickness)"

text \<open>create_emoji_icon.py, lines 78-83 (\<open>thickness = 25\<close>); the fill is the RGB triple
  \<open>gold_body\<close>, which Pillow paints opaque.\<close>

definition emoji_shackle :: "int \<Rightarrow> int \<Rightarrow> int \<Rightarrow> int \<Rightarrow> int \<Rightarrow> draw_call list" where
  "emoji_shackle shackle_x shackle_y shackle_width shackle_height thickness =
     map (\<lambda>t. (Arc (shackle_x - t div 2, shackle_y - t div 2,
                     shackle_x + shackle_width + t div 2,
                     shackle_y + shackle_height + t div 2) 180 360 3,
                (fst gold_body, fst (snd gold_body), snd (snd gold_body), 255)))
         (py_range thickness)"

text \<open>create_visible_icon.py, lines 47-51.\<close>

definition visible_shackle :: "int \<Rightarrow> int \<Rightarrow> int \<Rightarrow> int \<Rightarrow> draw_call list" where
  "visible_shackle shackle_x shackle_y shackle_width shackle_height =
     map (\<lambda>thickness.
            (Arc (shackle_x - thickness, shackle_y - thickness,
                  shackle_x + shackle_width + thickness,
                  shackle_y + shackle_height + thickness) 180 360 3, (255, 255, 255, 255)))
         (py_range 25)"

definition stroked_arc_spec :: "bbox \<Rightarrow> int \<Rightarrow> int \<Rightarrow> int \<Rightarrow> color \<Rightarrow> draw_call list" where
  \<comment> \<open>The specification's words (section 4.3): \<open>strokeWidth\<close> passes \<open>t = 0 .. strokeWidth-1\<close>,
     each on the bounding box expanded by \<open>t/2\<close>, each a thin curve of about 3 units over
     \<open>[startDeg, endDeg]\<close>.\<close>
  "stroked_arc_spec box startDeg endDeg strokeWidth col =
     map (\<lambda>t. (Arc (expand box (t div 2)) startDeg endDeg 3, col)) (py_range strokeWidth)"

subsection \<open>Scripts that read a previously generated icon\<close>












fun box_glyphs :: "shape \<Rightarrow> int \<times> int \<Rightarrow> bool" where
  \<comment> \<open>A stand-in for the font when a scene with text is evaluated: a text run covers a
     200 by 90 box at its origin.\<close>
  "box_glyphs (TextAt (x, y) s) (u, v) = (x \<le> u \<and> u < x + 200 \<and> y \<le> v \<and> v < y + 90)"
| "box_glyphs s p = False"

section \<open>Theorems\<close>

subsection \<open>Ranges, rendering and discs\<close>



lemma length_py_range: "length (py_range n) = nat n"
  by (simp add: py_range_def)

lemma nth_py_range: "0 \<le> i \<Longrightarrow> i < n \<Longrightarrow> py_range n ! nat i = i"
  by (simp add: py_range_def)

lemma render_snoc: "render cov (calls @ [dc]) img = paint cov dc (render cov calls img)"
  by (simp add: render_def)

lemma render_append: "render cov (xs @ ys) img = render cov ys (render cov xs img)"
  by (simp add: render_def)

lemma inside_paint: "inside (paint cov dc img) p = inside img p"
  by (simp add: inside_def paint_def)

lemma inside_render: "inside (render cov calls img) p = inside img p"
  by (induction calls arbitrary: img) (simp_all add: render_def inside_paint)

lemma blend_opaque: "alpha src = 255 \<Longrightarrow> blend dst src = src"
  by (cases src; cases dst) (simp add: blend_def blend_channel_def)

lemma getpixel_paint:
  "getpixel (paint cov dc img) p =
     (case getpixel img p of None \<Rightarrow> None
      | Some d \<Rightarrow> Some (if cov (fst dc) p then blend d (snd dc) else d))"
  by (simp add: getpixel_def inside_paint) (simp add: paint_def)

lemma render_uncovered:
  "\<forall>dc\<in>set calls. \<not> cov (fst dc) p \<Longrightarrow> getpixel (render cov calls img) p = getpixel img p"
proof (induction calls arbitrary: img rule: rev_induct)
  case Nil
  show ?case by (simp add: render_def)
next
  case (snoc dc calls)
  then show ?case by (simp add: render_snoc getpixel_paint split: option.splits)
qed

lemma render_top_opaque:
  assumes "inside img p" "cov (fst dc) p" "alpha (snd dc) = 255"
  shows "getpixel (render cov (calls @ [dc]) img) p = Some (snd dc)"
proof -
  have "inside (render cov calls img) p" using assms(1) by (simp add: inside_render)
  then obtain d where "getpixel (render cov calls img) p = Some d" by (simp add: getpixel_def)
  then show ?thesis using assms(2,3) by (simp add: render_snoc getpixel_paint blend_opaque)
qed




subsection \<open>Opaque compositing\<close>

text \<open>
  C4. Src-over compositing of a fully opaque source colour onto any destination pixel, the
  fully transparent one included, gives exactly the source colour; and when an opaque
  call is painted after an earlier layer, every pixel of the image that it covers shows
  its colour, whatever the earlier layer left there.
\<close>

theorem opaque_over_is_source:
  assumes "alpha src = 255"
  shows "blend dst src = src \<and> blend (0, 0, 0, 0) src = src \<and>
         (inside img p \<and> cov shp p \<longrightarrow>
            getpixel (render cov (layerA @ [(shp, src)]) img) p = Some src)"
proof -
  have "inside img p \<and> cov shp p \<longrightarrow>
          getpixel (render cov (layerA @ [(shp, src)]) img) p = Some src"
    using render_top_opaque[of img p cov "(shp, src)" layerA] assms by simp
  then show ?thesis using assms by (simp add: blend_opaque)
qed

theorem opaque_over_is_source_witness:
  "alpha (255, 255, 255, 255) = 255 \<and>
   blend (115, 58, 236, 255) (255, 255, 255, 255) = (255, 255, 255, 255) \<and>
   blend (0, 0, 0, 0) (255, 255, 255, 255) = (255, 255, 255, 255) \<and>
   getpixel (render (covers no_strokes) (icon_gradient 512 @ [icon_document 512])
               (new_image 1024 1024 (0, 0, 0, 0))) (512, 512) = Some (255, 255, 255, 255)"
  using opaque_over_is_source[of "(255, 255, 255, 255)" "(115, 58, 236, 255)"
          "new_image 1024 1024 (0, 0, 0, 0)" "(512, 512)" "covers no_strokes"
          "Rectangle (412, 382, 612, 642)" "icon_gradient 512"]
  by (simp add: icon_document_def inside_def new_image_def)

subsection \<open>Gradient loops with increasing radius\<close>



subsection \<open>Channel interpolation\<close>









subsection \<open>Ring gradients with decreasing radius\<close>

lemma set_py_range2: "set (py_range2 a b) = {i. a \<le> i \<and> i < b}"
proof (rule set_eqI)
  fix i
  show "i \<in> set (py_range2 a b) \<longleftrightarrow> i \<in> {i. a \<le> i \<and> i < b}"
  proof
    assume "i \<in> set (py_range2 a b)"
    then show "i \<in> {i. a \<le> i \<and> i < b}" by (auto simp: py_range2_def)
  next
    assume "i \<in> {i. a \<le> i \<and> i < b}"
    then have "nat (i - a) \<in> set [0..<nat (b - a)]" and "i = a + int (nat (i - a))" by auto
    then show "i \<in> set (py_range2 a b)" unfolding py_range2_def set_map by (rule_tac image_eqI)
  qed
qed














subsection \<open>The alpha mask\<close>

text \<open>
  C5 (as amended). For an image and a mask of the same size, \<open>putalpha\<close> succeeds, keeps
  the size, leaves the red, green and blue channels of every pixel unchanged and sets
  its alpha to the mask value, replacing the previous alpha. The result is the product
  of the previous alpha and \<open>maskAlpha/255\<close> wherever the previous alpha is 255 or the
  mask is 0.
\<close>

theorem putalpha_replaces:
  assumes "cv_width mask_img = cv_width img" and "cv_height mask_img = cv_height img"
  shows "\<exists>out. putalpha img mask_img = Inr out \<and>
           cv_width out = cv_width img \<and> cv_height out = cv_height img \<and>
           (\<forall>p r g b a. getpixel img p = Some (r, g, b, a) \<longrightarrow>
              getpixel out p = Some (r, g, b, cv_pixels mask_img p) \<and>
              (a = 255 \<or> cv_pixels mask_img p = 0 \<longrightarrow>
                 getpixel out p = getpixel (applyAlphaMask_spec img mask_img) p))"
proof -
  let ?out = "img\<lparr>cv_pixels :=
                  (\<lambda>p. case cv_pixels img p of (r, g, b, a) \<Rightarrow> (r, g, b, cv_pixels mask_img p))\<rparr>"
  have run: "putalpha img mask_img = Inr ?out" using assms by (simp add: putalpha_def)
  have px: "\<forall>p r g b a. getpixel img p = Some (r, g, b, a) \<longrightarrow>
              getpixel ?out p = Some (r, g, b, cv_pixels mask_img p) \<and>
              (a = 255 \<or> cv_pixels mask_img p = 0 \<longrightarrow>
                 getpixel ?out p = getpixel (applyAlphaMask_spec img mask_img) p)"
    by (auto simp: getpixel_def inside_def applyAlphaMask_spec_def split: if_splits)
  have w: "cv_width ?out = cv_width img" and h: "cv_height ?out = cv_height img" by simp_all
  show ?thesis using run w h px by blast
qed

text \<open>
  An opaque 300 by 300 icon under the script's circular mask: the centre stays opaque,
  the corner pixel \<open>(5, 5)\<close> becomes transparent.
\<close>

theorem putalpha_replaces_witness:
  "cv_width (store_icon_mask (covers no_strokes) 300)
     = cv_width (new_image 300 300 (103, 58, 183, 255) :: color image) \<and>
   cv_height (store_icon_mask (covers no_strokes) 300)
     = cv_height (new_image 300 300 (103, 58, 183, 255) :: color image) \<and>
   (\<exists>out. putalpha (new_image 300 300 (103, 58, 183, 255)) (store_icon_mask (covers no_strokes) 300) = Inr out \<and>
      getpixel out (150, 150) = Some (103, 58, 183, 255) \<and>
      getpixel out (5, 5) = Some (103, 58, 183, 0))"
proof -
  let ?img = "new_image 300 300 (103, 58, 183, 255) :: color image"
  let ?m = "store_icon_mask (covers no_strokes) 300"
  have w: "cv_width ?m = cv_width ?img" and h: "cv_height ?m = cv_height ?img"
    by (simp_all add: store_icon_mask_def fill_mask_def new_image_def)
  have m1: "cv_pixels ?m (150, 150) = 255" and m2: "cv_pixels ?m (5, 5) = 0"
    by (simp_all add: store_icon_mask_def fill_mask_def new_image_def inside_def)
  have p1: "getpixel ?img (150, 150) = Some (103, 58, 183, 255)"
    and p2: "getpixel ?img (5, 5) = Some (103, 58, 183, 255)"
    by (simp_all add: getpixel_def inside_def new_image_def)
  from putalpha_replaces[OF w h] obtain out where
    out: "putalpha ?img ?m = Inr out" and
    px: "\<forall>p r g b a. getpixel ?img p = Some (r, g, b, a) \<longrightarrow>
              getpixel out p = Some (r, g, b, cv_pixels ?m p) \<and>
              (a = 255 \<or> cv_pixels ?m p = 0 \<longrightarrow>
                 getpixel out p = getpixel (applyAlphaMask_spec ?img ?m) p)"
    by blast
  have "getpixel out (150, 150) = Some (103, 58, 183, 255)" using px p1 m1 by fastforce
  moreover have "getpixel out (5, 5) = Some (103, 58, 183, 0)" using px p2 m2 by fastforce
  ultimately show ?thesis using w h out by blast
qed

text \<open>
  The claim as stated fails on a transparent pixel under a mask value of 255: the product
  rule keeps alpha 0, while \<open>putalpha\<close> makes the pixel opaque.
\<close>

theorem putalpha_counterexample:
  "\<not> isl (putalpha (new_image 1 1 (10, 20, 30, 0)) (new_image 1 1 255)) \<and>
   getpixel (projr (putalpha (new_image 1 1 (10, 20, 30, 0)) (new_image 1 1 255))) (0, 0)
     = Some (10, 20, 30, 255) \<and>
   getpixel (applyAlphaMask_spec (new_image 1 1 (10, 20, 30, 0)) (new_image 1 1 255)) (0, 0)
     = Some (10, 20, 30, 0)"
  by (simp add: putalpha_def applyAlphaMask_spec_def new_image_def getpixel_def inside_def)

subsection \<open>Text outlines\<close>

lemma square_offsets: "(- R \<le> dx \<and> dx < R + 1 \<and> - R \<le> dy \<and> dy < R + 1) = (max \<bar>dx\<bar> \<bar>dy\<bar> \<le> (R::int))"
  by auto

lemma gold_outline_set:
  "set (butlast (gold_text R tx ty text))
     = (\<lambda>(dx, dy). (TextAt (tx + dx, ty + dy) text, (0, 0, 0, 255))) ` outline_offsets_spec R"
proof -
  have "set (butlast (gold_text R tx ty text))
        = {(TextAt (tx + dx, ty + dy) text, (0, 0, 0, 255)) | dx dy.
             (- R \<le> dx \<and> dx < R + 1 \<and> - R \<le> dy \<and> dy < R + 1) \<and> (dx \<noteq> 0 \<or> dy \<noteq> 0)}"
    unfolding gold_text_def butlast_snoc by (auto simp: set_py_range2 split: if_splits)
  also have "\<dots> = (\<lambda>(dx, dy). (TextAt (tx + dx, ty + dy) text, (0, 0, 0, 255))) ` outline_offsets_spec R"
    unfolding square_offsets outline_offsets_spec_def by auto
  finally show ?thesis .
qed

lemma visible_outline_set:
  "set (butlast (visible_text tx ty text))
     = (\<lambda>(dx, dy). (TextAt (tx + dx, ty + dy) text, (255, 255, 255, 255)))
         ` insert (0, 0) (outline_offsets_spec 3)"
proof -
  have "set (butlast (visible_text tx ty text))
        = {(TextAt (tx + dx, ty + dy) text, (255, 255, 255, 255)) | dx dy.
             (- 3 \<le> dx \<and> dx < 3 + 1 \<and> - 3 \<le> dy \<and> dy < 3 + 1)}"
    unfolding visible_text_def butlast_snoc by (auto simp: set_py_range2)
  also have "\<dots> = (\<lambda>(dx, dy). (TextAt (tx + dx, ty + dy) text, (255, 255, 255, 255)))
         ` insert (0, 0) (outline_offsets_spec 3)"
    unfolding square_offsets outline_offsets_spec_def by auto
  finally show ?thesis .
qed

lemma concat_if_filter:
  "concat (map (\<lambda>y. if P y then [g y] else []) ys) = map g (filter P ys)"
  by (induction ys) simp_all

lemma concat_map_product:
  "concat (map (\<lambda>x. map (g x) (filter (P x) ys)) xs)
     = map (\<lambda>(x, y). g x y) (filter (\<lambda>(x, y). P x y) (List.product xs ys))"
  by (induction xs) (simp_all add: filter_map comp_def)

lemma distinct_py_range2: "distinct (py_range2 a b)"
  unfolding py_range2_def by (simp add: distinct_map inj_on_def)

lemma gold_outline_distinct: "distinct (butlast (gold_text R tx ty text))"
proof -
  let ?g = "\<lambda>x y. (TextAt (tx + x, ty + y) text, (0, 0, 0, 255::int))"
  let ?rg = "py_range2 (- R) (R + 1)"
  have "butlast (gold_text R tx ty text)
        = concat (map (\<lambda>x. map (?g x) (filter (\<lambda>y. x \<noteq> 0 \<or> y \<noteq> 0) ?rg)) ?rg)"
    unfolding gold_text_def butlast_snoc by (simp add: concat_if_filter)
  also have "\<dots> = map (\<lambda>(x, y). ?g x y) (filter (\<lambda>(x, y). x \<noteq> 0 \<or> y \<noteq> 0) (List.product ?rg ?rg))"
    by (rule concat_map_product)
  finally show ?thesis
    by (simp add: distinct_map distinct_product distinct_py_range2 inj_on_def)
qed

lemma visible_outline_distinct: "distinct (butlast (visible_text tx ty text))"
proof -
  let ?g = "\<lambda>x y. (TextAt (tx + x, ty + y) text, (255, 255, 255, 255::int))"
  let ?rg = "py_range2 (- 3) 4"
  have "butlast (visible_text tx ty text)
        = concat (map (\<lambda>x. map (?g x) (filter (\<lambda>y. True) ?rg)) ?rg)"
    unfolding visible_text_def butlast_snoc by simp
  also have "\<dots> = map (\<lambda>(x, y). ?g x y) (filter (\<lambda>(x, y). True) (List.product ?rg ?rg))"
    by (rule concat_map_product)
  finally show ?thesis
    by (simp add: distinct_map distinct_product distinct_py_range2 inj_on_def)
qed

text \<open>
  C7 (as amended). In create_gold_icon.py the outline pass fills the text in the outline
  colour once at each offset \<open>(dx, dy)\<close> with \<open>max(|dx|,|dy|) \<le> outline_size\<close> other than
  \<open>(0, 0)\<close>, and at no other position. In create_visible_icon.py the outline pass (radius
  3) fills it once at each such offset and also at \<open>(0, 0)\<close>. In both scripts the fill
  pass in the target colour is the last call, at the origin, so every pixel of the image
  that the text at the origin covers ends in the fill colour.
\<close>

theorem outline_passes:
  "set (butlast (gold_text R tx ty text))
     = (\<lambda>(dx, dy). (TextAt (tx + dx, ty + dy) text, (0, 0, 0, 255))) ` outline_offsets_spec R \<and>
   distinct (butlast (gold_text R tx ty text)) \<and>
   last (gold_text R tx ty text) = (TextAt (tx, ty) text, (255, 255, 255, 255)) \<and>
   set (butlast (visible_text tx ty text))
     = (\<lambda>(dx, dy). (TextAt (tx + dx, ty + dy) text, (255, 255, 255, 255)))
         ` insert (0, 0) (outline_offsets_spec 3) \<and>
   distinct (butlast (visible_text tx ty text)) \<and>
   last (visible_text tx ty text) = (TextAt (tx, ty) text, (103, 58, 183, 255)) \<and>
   (inside img p \<and> cov (TextAt (tx, ty) text) p \<longrightarrow>
      getpixel (render cov (gold_text R tx ty text) img) p = Some (255, 255, 255, 255) \<and>
      getpixel (render cov (visible_text tx ty text) img) p = Some (103, 58, 183, 255))"
proof -
  have lg: "last (gold_text R tx ty text) = (TextAt (tx, ty) text, (255, 255, 255, 255))"
    and lv: "last (visible_text tx ty text) = (TextAt (tx, ty) text, (103, 58, 183, 255))"
    by (simp_all add: gold_text_def visible_text_def)
  have occ: "inside img p \<and> cov (TextAt (tx, ty) text) p \<longrightarrow>
      getpixel (render cov (gold_text R tx ty text) img) p = Some (255, 255, 255, 255) \<and>
      getpixel (render cov (visible_text tx ty text) img) p = Some (103, 58, 183, 255)"
  proof (intro impI conjI)
    assume h: "inside img p \<and> cov (TextAt (tx, ty) text) p"
    show "getpixel (render cov (gold_text R tx ty text) img) p = Some (255, 255, 255, 255)"
      unfolding gold_text_def
      using render_top_opaque[of img p cov "(TextAt (tx, ty) text, (255, 255, 255, 255))"] h by simp
    show "getpixel (render cov (visible_text tx ty text) img) p = Some (103, 58, 183, 255)"
      unfolding visible_text_def
      using render_top_opaque[of img p cov "(TextAt (tx, ty) text, (103, 58, 183, 255))"] h by simp
  qed
  show ?thesis
    by (intro conjI gold_outline_set gold_outline_distinct lg visible_outline_set
        visible_outline_distinct lv occ)
qed

text \<open>
  The gold icon's text at \<open>(412, 854)\<close> with outline size 4: the offset \<open>(4, -4)\<close> is
  drawn in black, the origin is not, and a pixel of the text ends white.
\<close>

theorem outline_passes_witness:
  "(TextAt (412 + 4, 854 + (- 4)) ''FURL'', (0, 0, 0, 255)) \<in> set (butlast (gold_text 4 412 854 ''FURL'')) \<and>
   (TextAt (412, 854) ''FURL'', (0, 0, 0, 255)) \<notin> set (butlast (gold_text 4 412 854 ''FURL'')) \<and>
   inside (new_image 1024 1024 (0, 0, 0, 0)) (420, 860) \<and>
   box_glyphs (TextAt (412, 854) ''FURL'') (420, 860) \<and>
   getpixel (render box_glyphs (gold_text 4 412 854 ''FURL'') (new_image 1024 1024 (0, 0, 0, 0)))
     (420, 860) = Some (255, 255, 255, 255)"
proof -
  note run = outline_passes[of 4 412 854 "''FURL''" "new_image 1024 1024 (0, 0, 0, 0)" "(420, 860)" box_glyphs]
  from run have st: "set (butlast (gold_text 4 412 854 ''FURL''))
     = (\<lambda>(dx, dy). (TextAt (412 + dx, 854 + dy) ''FURL'', (0, 0, 0, 255))) ` outline_offsets_spec 4"
    by (rule conjunct1)
  have "(4, - 4) \<in> outline_offsets_spec 4" by (simp add: outline_offsets_spec_def)
  then have a: "(TextAt (412 + 4, 854 + (- 4)) ''FURL'', (0, 0, 0, 255)) \<in> set (butlast (gold_text 4 412 854 ''FURL''))"
    unfolding st by (rule_tac x = "(4, - 4)" in image_eqI) simp_all
  have b: "(TextAt (412, 854) ''FURL'', (0, 0, 0, 255)) \<notin> set (butlast (gold_text 4 412 854 ''FURL''))"
    unfolding st by (auto simp: outline_offsets_spec_def)
  have h1: "inside (new_image 1024 1024 (0, 0, 0, 0)) (420, 860)"
    by (simp add: inside_def new_image_def)
  have h2: "box_glyphs (TextAt (412, 854) ''FURL'') (420, 860)" by simp
  from run h1 h2 have c: "getpixel (render box_glyphs (gold_text 4 412 854 ''FURL'')
      (new_image 1024 1024 (0, 0, 0, 0))) (420, 860) = Some (255, 255, 255, 255)"
    by blast
  show ?thesis using a b h1 h2 c by (intro conjI)
qed

text \<open>
  The claim as stated fails for create_visible_icon.py: its outline pass draws the text
  in the outline colour at the origin itself, the offset \<open>(0, 0)\<close> that the claim excludes.
\<close>

theorem outline_origin_counterexample:
  "(TextAt (412, 854) ''FURL'', (255, 255, 255, 255)) \<in> set (butlast (visible_text 412 854 ''FURL'')) \<and>
   (0, 0) \<notin> outline_offsets_spec 3"
proof -
  have "(TextAt (412 + 0, 854 + 0) ''FURL'', (255, 255, 255, 255))
        \<in> set (butlast (visible_text 412 854 ''FURL''))"
    unfolding visible_outline_set by (rule_tac x = "(0, 0)" in image_eqI) simp_all
  then show ?thesis by (simp add: outline_offsets_spec_def)
qed

subsection \<open>Stroked arcs\<close>

lemma nth_map_py_range: "0 \<le> t \<Longrightarrow> t < n \<Longrightarrow> map f (py_range n) ! nat t = f t"
  by (simp add: length_py_range nth_py_range)

text \<open>
  C8 (as amended). Each shackle is drawn in exactly as many passes as its thickness, pass
  \<open>t\<close> being a thin arc over \<open>[180, 360]\<close> on the shackle's bounding box grown outward:
  by \<open>t div 2\<close> in create_gold_icon.py (35 passes in the script, arcs 4 wide) and in
  create_emoji_icon.py (25 passes, arcs 3 wide, exactly the passes of the specification),
  and by \<open>t\<close> in create_visible_icon.py (25 passes, arcs 3 wide).
\<close>

theorem shackle_passes:
  "length (gold_shackle sx sy sw sh n) = nat n \<and>
   length (emoji_shackle sx sy sw sh n) = nat n \<and>
   length (visible_shackle sx sy sw sh) = 25 \<and>
   emoji_shackle sx sy sw sh n = stroked_arc_spec (sx, sy, sx + sw, sy + sh) 180 360 n (255, 215, 0, 255) \<and>
   (\<forall>t. 0 \<le> t \<and> t < n \<longrightarrow>
      gold_shackle sx sy sw sh n ! nat t
        = (Arc (expand (sx, sy, sx + sw, sy + sh) (t div 2)) 180 360 4, (255, 215, 0, 255)) \<and>
      emoji_shackle sx sy sw sh n ! nat t
        = (Arc (expand (sx, sy, sx + sw, sy + sh) (t div 2)) 180 360 3, (255, 215, 0, 255))) \<and>
   (\<forall>t. 0 \<le> t \<and> t < 25 \<longrightarrow>
      visible_shackle sx sy sw sh ! nat t
        = (Arc (expand (sx, sy, sx + sw, sy + sh) t) 180 360 3, (255, 255, 255, 255)))"
proof -
  have len: "length (gold_shackle sx sy sw sh n) = nat n"
    "length (emoji_shackle sx sy sw sh n) = nat n"
    "length (visible_shackle sx sy sw sh) = 25"
    by (simp_all add: gold_shackle_def emoji_shackle_def visible_shackle_def length_py_range)
  have spec: "emoji_shackle sx sy sw sh n
      = stroked_arc_spec (sx, sy, sx + sw, sy + sh) 180 360 n (255, 215, 0, 255)"
    by (simp add: emoji_shackle_def stroked_arc_spec_def expand_def gold_body_def)
  have half: "\<forall>t. 0 \<le> t \<and> t < n \<longrightarrow>
      gold_shackle sx sy sw sh n ! nat t
        = (Arc (expand (sx, sy, sx + sw, sy + sh) (t div 2)) 180 360 4, (255, 215, 0, 255)) \<and>
      emoji_shackle sx sy sw sh n ! nat t
        = (Arc (expand (sx, sy, sx + sw, sy + sh) (t div 2)) 180 360 3, (255, 215, 0, 255))"
    unfolding gold_shackle_def emoji_shackle_def
    by (simp add: nth_map_py_range expand_def gold_main_def gold_body_def)
  have full: "\<forall>t. 0 \<le> t \<and> t < 25 \<longrightarrow>
      visible_shackle sx sy sw sh ! nat t
        = (Arc (expand (sx, sy, sx + sw, sy + sh) t) 180 360 3, (255, 255, 255, 255))"
    unfolding visible_shackle_def
    by (simp add: nth_map_py_range expand_def)
  show ?thesis by (intro conjI len spec half full)
qed

text \<open>
  The last pass of the gold shackle grows the box by 17, the last pass of the visible
  shackle by 24.
\<close>

theorem shackle_passes_witness:
  "gold_shackle 412 342 200 140 35 ! 34 = (Arc (395, 325, 629, 499) 180 360 4, (255, 215, 0, 255)) \<and>
   visible_shackle 432 392 160 120 ! 24 = (Arc (408, 368, 616, 536) 180 360 3, (255, 255, 255, 255)) \<and>
   length (gold_shackle 412 342 200 140 35) = 35"
proof -
  note g = shackle_passes[of 412 342 200 140 35]
  from g have len: "length (gold_shackle 412 342 200 140 35) = nat 35" by (rule conjunct1)
  from g have "\<forall>t. 0 \<le> t \<and> t < 35 \<longrightarrow>
      gold_shackle 412 342 200 140 35 ! nat t
        = (Arc (expand (412, 342, 412 + 200, 342 + 140) (t div 2)) 180 360 4, (255, 215, 0, 255)) \<and>
      emoji_shackle 412 342 200 140 35 ! nat t
        = (Arc (expand (412, 342, 412 + 200, 342 + 140) (t div 2)) 180 360 3, (255, 215, 0, 255))"
    by (elim conjE)
  from this[rule_format, of 34]
  have a: "gold_shackle 412 342 200 140 35 ! 34 = (Arc (395, 325, 629, 499) 180 360 4, (255, 215, 0, 255))"
    by (simp add: expand_def)
  note v = shackle_passes[of 432 392 160 120 0]
  from v have "\<forall>t. 0 \<le> t \<and> t < 25 \<longrightarrow>
      visible_shackle 432 392 160 120 ! nat t
        = (Arc (expand (432, 392, 432 + 160, 392 + 120) t) 180 360 3, (255, 255, 255, 255))"
    by (elim conjE)
  from this[rule_format, of 24]
  have b: "visible_shackle 432 392 160 120 ! 24 = (Arc (408, 368, 616, 536) 180 360 3, (255, 255, 255, 255))"
    by (simp add: expand_def)
  show ?thesis using a b len by simp
qed

text \<open>
  The claim as stated fails for create_visible_icon.py: pass 2 grows the box by 2, where
  the stated \<open>t/2\<close> is 1.
\<close>

theorem shackle_expansion_counterexample:
  "visible_shackle 432 392 160 120 ! 2 = (Arc (430, 390, 594, 514) 180 360 3, (255, 255, 255, 255)) \<and>
   stroked_arc_spec (432, 392, 592, 512) 180 360 25 (255, 255, 255, 255) ! 2
     = (Arc (431, 391, 593, 513) 180 360 3, (255, 255, 255, 255))"
  by (simp add: visible_shackle_def stroked_arc_spec_def py_range_def expand_def)

subsection \<open>A missing source icon\<close>













subsection \<open>Corners drawn over\<close>

lemma render_opaque_then_uncovered:
  assumes "inside img p" "cov (fst dc) p" "alpha (snd dc) = 255"
    and rest: "\<forall>d\<in>set rest. \<not> cov (fst d) p"
  shows "getpixel (render cov (calls @ dc # rest) img) p = Some (snd dc)"
proof -
  have "render cov (calls @ dc # rest) img = render cov rest (render cov (calls @ [dc]) img)"
    using render_append[of cov "calls @ [dc]" rest img] by simp
  then have "getpixel (render cov (calls @ dc # rest) img) p
             = getpixel (render cov (calls @ [dc]) img) p"
    using render_uncovered[where cov = cov and p = p, OF rest] by simp
  then show ?thesis using render_top_opaque[of img p cov dc calls] assms(1,2,3) by simp
qed

text \<open>
  C6. The two scripts that round the padlock body by drawing over its corners do not
  produce the corners of a rounded rectangle. In create_gold_icon.py the step commented
  "round the corners by drawing over with background color" paints discs centred on the
  corner points, which cut a concave notch: the pixel \<open>(332, 452)\<close> ends in the
  background colour although it lies inside the rounded rectangle of the same box and
  radius 25. In create_emoji_icon.py the step commented "remove square corners" paints
  squares in the colour left in \<open>r, g, b\<close> by the last row of the body: the corner pixel
  \<open>(400, 448)\<close> ends opaque dark gold, where the rounded rectangle of radius 20 does not
  cover it. The body of create_visible_icon.py, drawn with \<open>draw.rounded_rectangle\<close>,
  covers the pixel 10 in from its corner on both axes and leaves the corner pixel out.
\<close>

theorem corner_overdraw_is_not_rounding:
  "getpixel (render (covers no_strokes) (gold_padlock_body 1024) (new_image 1024 1024 (0, 0, 0, 0)))
     (332, 452) = Some (42, 69, 148, 255) \<and>
   covers no_strokes (RoundedRectangle (322, 442, 702, 722) 25) (332, 452) \<and>
   getpixel (render (covers no_strokes) (emoji_padlock_body 1024) (new_image 1024 1024 (0, 0, 0, 0)))
     (400, 448) = Some (218, 165, 31, 255) \<and>
   \<not> covers no_strokes (RoundedRectangle (400, 448, 624, 640) 20) (400, 448) \<and>
   visible_body 1024 = (RoundedRectangle (362, 472, 662, 692) 20, (255, 255, 255, 255)) \<and>
   covers no_strokes (fst (visible_body 1024)) (372, 482) \<and>
   \<not> covers no_strokes (fst (visible_body 1024)) (362, 472)"
proof -
  let ?img = "new_image 1024 1024 (0, 0, 0, 0) :: color image"
  have gold: "gold_padlock_body 1024
      = gold_body_rows 322 442 380 280
        @ (Ellipse (297, 417, 347, 467), (42, 69, 148, 255))
        # [(Ellipse (677, 417, 727, 467), (42, 69, 148, 255)),
           (Ellipse (297, 697, 347, 747), (42, 69, 148, 255)),
           (Ellipse (677, 697, 727, 747), (42, 69, 148, 255))]"
    by (simp add: gold_padlock_body_def gold_corners_def Let_def)
  have g: "getpixel (render (covers no_strokes) (gold_padlock_body 1024) ?img) (332, 452)
           = Some (42, 69, 148, 255)"
    unfolding gold
    using render_opaque_then_uncovered[of ?img "(332, 452)" "covers no_strokes"
        "(Ellipse (297, 417, 347, 467), (42, 69, 148, 255))"
        "[(Ellipse (677, 417, 727, 467), (42, 69, 148, 255)),
           (Ellipse (297, 697, 347, 747), (42, 69, 148, 255)),
           (Ellipse (677, 697, 727, 747), (42, 69, 148, 255))]"
        "gold_body_rows 322 442 380 280"]
    by (simp add: inside_def new_image_def)
  have col: "emoji_body_color 192 191 = (218, 165, 31, 255)"
    by (simp add: emoji_body_color_def gold_body_def gold_dark_def lerp_weighted_def py_int_def)
  have emoji: "emoji_padlock_body 1024
      = emoji_body_gradient 400 448 224 192
        @ (Rectangle (400, 448, 420, 468), (218, 165, 31, 255))
        # [(Rectangle (584, 448, 604, 468), (218, 165, 31, 255)),
           (Rectangle (400, 600, 420, 620), (218, 165, 31, 255)),
           (Rectangle (584, 600, 604, 620), (218, 165, 31, 255))]"
    by (simp add: emoji_padlock_body_def emoji_corners_def Let_def py_int_def col)
  have e: "getpixel (render (covers no_strokes) (emoji_padlock_body 1024) ?img) (400, 448)
           = Some (218, 165, 31, 255)"
    unfolding emoji
    using render_opaque_then_uncovered[of ?img "(400, 448)" "covers no_strokes"
        "(Rectangle (400, 448, 420, 468), (218, 165, 31, 255))"
        "[(Rectangle (584, 448, 604, 468), (218, 165, 31, 255)),
           (Rectangle (400, 600, 420, 620), (218, 165, 31, 255)),
           (Rectangle (584, 600, 604, 620), (218, 165, 31, 255))]"
        "emoji_body_gradient 400 448 224 192"]
    by (simp add: inside_def new_image_def)
  have r1: "covers no_strokes (RoundedRectangle (322, 442, 702, 722) 25) (332, 452)" by simp
  have r2: "\<not> covers no_strokes (RoundedRectangle (400, 448, 624, 640) 20) (400, 448)" by simp
  have v: "visible_body 1024 = (RoundedRectangle (362, 472, 662, 692) 20, (255, 255, 255, 255))"
    by (simp add: visible_body_def)
  have v1: "covers no_strokes (fst (visible_body 1024)) (372, 482)"
    and v2: "\<not> covers no_strokes (fst (visible_body 1024)) (362, 472)"
    unfolding v by simp_all
  show ?thesis using g r1 e r2 v v1 v2 by (intro conjI)
qed

end
